theory Spec2Isabelle
  imports Main
begin

section \<open>Python strings and the formatting the converter relies on\<close>

text \<open>
  A Python \<open>str\<close> is a sequence of Unicode code points, and \<open>len\<close> counts code points,
  so a string is modelled as a list of code points. \<open>lit\<close> writes an ASCII literal of
  the source.
\<close>

type_synonym pystr = "nat list"

definition lit :: "string \<Rightarrow> pystr" where
  "lit s = map of_char s"

text \<open>\<open>sep.join(parts)\<close>\<close>

fun join :: "pystr \<Rightarrow> pystr list \<Rightarrow> pystr" where
  "join sep [] = []"
| "join sep [x] = x"
| "join sep (x # y # ys) = x @ sep @ join sep (y # ys)"

text \<open>Decimal digits of a natural number, most significant first; \<open>str\<close> of an \<open>int\<close>.\<close>

fun digits :: "nat \<Rightarrow> pystr" where
  "digits n = (if n < 10 then [0x30 + n] else digits (n div 10) @ [0x30 + n mod 10])"

declare digits.simps [simp del]

definition str_int :: "int \<Rightarrow> pystr" where
  "str_int i = (if i < 0 then lit ''-'' @ digits (nat (- i)) else digits (nat i))"

text \<open>
  The format specification \<open>02d\<close>: sign-aware zero fill to a minimum width of 2
  (\<open>f'{7:02d}' == '07'\<close>, \<open>f'{123:02d}' == '123'\<close>, \<open>f'{-5:02d}' == '-5'\<close>).
\<close>

definition format_02d :: "int \<Rightarrow> pystr" where
  "format_02d i =
     (let sign = (if i < 0 then lit ''-'' else []);
          ds = digits (nat \<bar>i\<bar>)
      in sign @ replicate (2 - (length sign + length ds)) 0x30 @ ds)"

text \<open>Lowercase hexadecimal digits, and the format specification \<open>02x\<close>.\<close>

definition hex_digit :: "nat \<Rightarrow> nat" where
  "hex_digit d = (if d < 10 then 0x30 + d else 0x61 + (d - 10))"

fun hex :: "nat \<Rightarrow> pystr" where
  "hex n = (if n < 16 then [hex_digit n] else hex (n div 16) @ [hex_digit (n mod 16)])"

declare hex.simps [simp del]

definition format_02x :: "nat \<Rightarrow> pystr" where
  "format_02x n = (let hs = hex n in replicate (2 - length hs) 0x30 @ hs)"

section \<open>Text escaping\<close>

text \<open>
  \<open>escape_pattern = re.compile(r'(["\\]|[\x00-\x1f\x7f])')\<close>: the pattern matches one
  character, a double quote (0x22), a backslash (0x5C), or a code point in 0x00-0x1F or
  0x7F.
\<close>

definition escape_pattern :: "nat \<Rightarrow> bool" where
  "escape_pattern c \<longleftrightarrow> (c = 0x22 \<or> c = 0x5C) \<or> (c \<le> 0x1F \<or> c = 0x7F)"

text \<open>\<open>escape_char\<close>, on the matched character.\<close>

definition escape_char :: "nat \<Rightarrow> pystr" where
  "escape_char char =
     (if char = 0x22 then [0x5C, 0x22]
      else if char = 0x5C then [0x5C, 0x5C]
      else if char = 0x0A then [0x5C, 0x6E]
      else if char = 0x0D then [0x5C, 0x72]
      else if char = 0x09 then [0x5C, 0x74]
      else [0x5C, 0x78] @ format_02x char)"

text \<open>
  \<open>escape_pattern.sub(escape_char, s)\<close>: every match is one character long, so the
  substitution replaces each matching character by \<open>escape_char\<close> of it and copies
  every other character.
\<close>

definition escape_string :: "pystr \<Rightarrow> pystr" where
  "escape_string s = concat (map (\<lambda>c. if escape_pattern c then escape_char c else [c]) s)"

text \<open>
  The escaping as the specification words it, character by character: a table for the
  quote, the backslash, newline, carriage return and tab, \<open>\x\<close> and two lowercase
  hexadecimal digits for the other control characters, and the character itself otherwise.
  The sixteen lowercase hexadecimal digits are written out.
\<close>

definition lower_hex :: pystr where
  "lower_hex = lit ''0123456789abcdef''"

definition is_control :: "nat \<Rightarrow> bool" where
  "is_control c \<longleftrightarrow> c \<le> 0x1F \<or> c = 0x7F"

definition escaped_char :: "nat \<Rightarrow> pystr" where
  "escaped_char c =
     (if c = 0x22 then [0x5C, 0x22]
      else if c = 0x5C then [0x5C, 0x5C]
      else if c = 0x0A then [0x5C, 0x6E]
      else if c = 0x0D then [0x5C, 0x72]
      else if c = 0x09 then [0x5C, 0x74]
      else if is_control c then [0x5C, 0x78, lower_hex ! (c div 16), lower_hex ! (c mod 16)]
      else [c])"

section \<open>Symbol classification\<close>

text \<open>
  The patterns are \<open>str\<close> patterns compiled without flags, so \<open>\d\<close> and \<open>\w\<close> are the
  Unicode classes: \<open>\d\<close> is any decimal digit (category Nd), \<open>\w\<close> any alphanumeric
  character or the underscore. On ASCII the classes are \<open>[0-9]\<close> and
  \<open>[a-zA-Z0-9_]\<close>; beyond ASCII they are read from the interpreter's Unicode character
  database, which is a parameter of the model.
\<close>

record unicode =
  isalnum :: "nat \<Rightarrow> bool"
  isdecimal :: "nat \<Rightarrow> bool"

definition ascii_upper :: "nat \<Rightarrow> bool" where
  "ascii_upper c \<longleftrightarrow> 0x41 \<le> c \<and> c \<le> 0x5A"

definition ascii_lower :: "nat \<Rightarrow> bool" where
  "ascii_lower c \<longleftrightarrow> 0x61 \<le> c \<and> c \<le> 0x7A"

definition ascii_digit :: "nat \<Rightarrow> bool" where
  "ascii_digit c \<longleftrightarrow> 0x30 \<le> c \<and> c \<le> 0x39"

definition ascii_letter :: "nat \<Rightarrow> bool" where
  "ascii_letter c \<longleftrightarrow> ascii_upper c \<or> ascii_lower c"

definition re_d :: "unicode \<Rightarrow> nat \<Rightarrow> bool" where
  "re_d U c = (if c < 0x80 then ascii_digit c else isdecimal U c)"

definition re_w :: "unicode \<Rightarrow> nat \<Rightarrow> bool" where
  "re_w U c =
     (if c < 0x80 then ascii_letter c \<or> ascii_digit c \<or> c = 0x5F else isalnum U c)"

text \<open>
  \<open>$\<close> without \<open>re.MULTILINE\<close> matches at the end of the string and just before a
  newline that ends the string; \<open>rest\<close> is the input not yet consumed.
\<close>

definition re_dollar :: "pystr \<Rightarrow> bool" where
  "re_dollar rest \<longleftrightarrow> rest = [] \<or> rest = [0x0A]"

text \<open>
  The three \<open>symbol_patterns\<close>, matched from the start of the string as \<open>re.match\<close>
  does: \<open>n\<close> is the number of characters the repetition consumes.
\<close>

definition pattern1 :: "unicode \<Rightarrow> pystr \<Rightarrow> bool" where
  "pattern1 U s =
     (case s of
        [] \<Rightarrow> False
      | c # cs \<Rightarrow>
          ascii_upper c \<and>
          list_ex (\<lambda>n. n \<le> length cs \<and> list_all (re_d U) (take n cs) \<and> re_dollar (drop n cs))
            [4, 5, 6])"

definition pattern2 :: "pystr \<Rightarrow> bool" where
  "pattern2 s =
     list_ex (\<lambda>n. n \<le> length s \<and> list_all ascii_upper (take n s) \<and> re_dollar (drop n s))
       [2, 3]"

definition pattern3 :: "unicode \<Rightarrow> pystr \<Rightarrow> bool" where
  "pattern3 U s =
     (case s of
        [] \<Rightarrow> False
      | c # cs \<Rightarrow>
          (ascii_letter c \<or> c = 0x5F) \<and>
          list_ex (\<lambda>n. list_all (re_w U) (take n cs) \<and> re_dollar (drop n cs))
            [0..<Suc (length cs)])"

text \<open>\<open>symbol_regex\<close> is the alternation of the three patterns.\<close>

definition symbol_regex :: "unicode \<Rightarrow> pystr \<Rightarrow> bool" where
  "symbol_regex U s \<longleftrightarrow> pattern1 U s \<or> pattern2 s \<or> pattern3 U s"

definition is_symbol :: "unicode \<Rightarrow> pystr \<Rightarrow> bool" where
  "is_symbol U s = (if s = [] \<or> length s > 20 then False else symbol_regex U s)"

text \<open>
  The three shapes as the specification words them, over whole strings: with the ASCII
  classes (\<open>ascii_shapes\<close>) and with the classes the patterns really use
  (\<open>unicode_shapes\<close>).
\<close>

definition ascii_word :: "nat \<Rightarrow> bool" where
  "ascii_word c \<longleftrightarrow> ascii_letter c \<or> ascii_digit c \<or> c = 0x5F"

definition ascii_shapes :: "pystr \<Rightarrow> bool" where
  "ascii_shapes s \<longleftrightarrow>
     (case s of [] \<Rightarrow> False
      | c # cs \<Rightarrow> ascii_upper c \<and> 4 \<le> length cs \<and> length cs \<le> 6 \<and> list_all ascii_digit cs)
     \<or> (2 \<le> length s \<and> length s \<le> 3 \<and> list_all ascii_upper s)
     \<or> (case s of [] \<Rightarrow> False
        | c # cs \<Rightarrow> (ascii_letter c \<or> c = 0x5F) \<and> list_all ascii_word cs)"

definition claimed_is_symbol :: "pystr \<Rightarrow> bool" where
  "claimed_is_symbol s \<longleftrightarrow> 1 \<le> length s \<and> length s \<le> 20 \<and> ascii_shapes s"

definition unicode_shapes :: "unicode \<Rightarrow> pystr \<Rightarrow> bool" where
  "unicode_shapes U s \<longleftrightarrow>
     (case s of [] \<Rightarrow> False
      | c # cs \<Rightarrow> ascii_upper c \<and> 4 \<le> length cs \<and> length cs \<le> 6 \<and> list_all (re_d U) cs)
     \<or> (2 \<le> length s \<and> length s \<le> 3 \<and> list_all ascii_upper s)
     \<or> (case s of [] \<Rightarrow> False
        | c # cs \<Rightarrow> (ascii_letter c \<or> c = 0x5F) \<and> list_all (re_w U) cs)"

text \<open>
  An excerpt of the Unicode character database for closed examples: U+00E9, LATIN SMALL
  LETTER E WITH ACUTE, is a letter (so \<open>isalnum\<close>) and not a decimal digit. The examples
  below consult the database at this code point only.
\<close>

definition latin_e_acute :: unicode where
  "latin_e_acute = \<lparr>isalnum = (\<lambda>c. c = 0xE9), isdecimal = (\<lambda>c. False)\<rparr>"

text \<open>A string that does not end in a newline character.\<close>

definition no_final_newline :: "pystr \<Rightarrow> bool" where
  "no_final_newline s \<longleftrightarrow> s = [] \<or> last s \<noteq> 0x0A"

section \<open>The values the converter consumes\<close>

text \<open>
  \<open>datetime.date\<close> and its subclass \<open>datetime.datetime\<close>; \<open>date_of\<close> is the method
  \<open>datetime.date()\<close>.
\<close>

record date =
  year :: int
  month :: int
  day :: int

record datetime = date +
  hour :: int
  minute :: int
  second :: int
  microsecond :: int

definition date_of :: "datetime \<Rightarrow> date" where
  "date_of dt = \<lparr>year = year dt, month = month dt, day = day dt\<rparr>"

text \<open>
  A \<open>float\<close> is NaN, an infinity, or a finite number; a finite number is given by the
  text \<open>str\<close> returns for it, which is all the converter reads of it.
\<close>

datatype pyfloat = NaN | PosInf | NegInf | Finite pystr

text \<open>
  The objects \<open>to_sexp\<close> dispatches on, in the order of its \<open>isinstance\<close> tests:
  \<open>dict\<close> (with \<open>str\<close> keys, in insertion order), \<open>list\<close>, \<open>str\<close>, \<open>bool\<close>,
  \<open>int\<close>, \<open>float\<close>, \<open>date\<close>, \<open>datetime\<close> and \<open>None\<close>. The last two
  constructors are the objects of the final \<open>else\<close>: one that has \<open>__iter__\<close> (a set,
  a tuple), given by the list \<open>list(data)\<close> returns, and any other object, given by
  its \<open>str(data)\<close>.
\<close>

datatype pyvalue =
    Mapping "(pystr \<times> pyvalue) list"
  | Sequence "pyvalue list"
  | Text pystr
  | Bool bool
  | Integer int
  | Float pyfloat
  | Date date
  | DateTime datetime
  | Null
  | Iterable "pyvalue list"
  | Opaque pystr

section \<open>The converter\<close>

record converter =
  key_prefix :: pystr

definition YAMLToSExpConverter :: "pystr \<Rightarrow> converter" where
  "YAMLToSExpConverter prefix = \<lparr>key_prefix = prefix\<rparr>"

definition format_date :: "date \<Rightarrow> pystr" where
  "format_date date_obj =
     lit ''(make-date '' @ str_int (year date_obj) @ lit '' '' @ format_02d (month date_obj)
       @ lit '' '' @ format_02d (day date_obj) @ lit '')''"

fun isinstance_dict :: "pyvalue \<Rightarrow> bool" where
  "isinstance_dict (Mapping kvs) = True"
| "isinstance_dict data = False"

definition is_list_of_records :: "pyvalue list \<Rightarrow> bool" where
  "is_list_of_records data = (if data = [] then False else list_all isinstance_dict data)"

text \<open>
  \<open>to_sexp\<close>. The two \<open>for\<close> loops that append to \<open>parts\<close> and \<open>item_parts\<close> are
  left folds over the items; the list comprehension is a \<open>map\<close>.
\<close>

function to_sexp :: "unicode \<Rightarrow> converter \<Rightarrow> pyvalue \<Rightarrow> pystr" where
  "to_sexp U self (Mapping kvs) =
     (if kvs = [] then lit ''()''
      else join (lit '' '')
        (foldl (\<lambda>parts (key, v).
            parts @ [lit ''('' @ (key_prefix self @ lit '':'' @ key) @ lit '' ''
                     @ to_sexp U self v @ lit '')''])
          [] kvs))"
| "to_sexp U self (Sequence xs) =
     (if xs = [] then lit ''()''
      else if is_list_of_records xs then
        join (lit '' '')
          (foldl (\<lambda>item_parts record.
              item_parts @ [lit ''('' @ key_prefix self @ lit '':item '' @ to_sexp U self record
                            @ lit '')''])
            [] xs)
      else lit ''('' @ join (lit '' '') (map (to_sexp U self) xs) @ lit '')'')"
| "to_sexp U self (Text s) =
     (if is_symbol U s then [0x27] @ s else [0x22] @ escape_string s @ [0x22])"
| "to_sexp U self (Bool b) = (if b then lit ''#t'' else lit ''#f'')"
| "to_sexp U self (Integer i) = str_int i"
| "to_sexp U self (Float f) =
     (case f of
        NaN \<Rightarrow> lit ''+nan.0''
      | PosInf \<Rightarrow> lit ''+inf.0''
      | NegInf \<Rightarrow> lit ''-inf.0''
      | Finite repr \<Rightarrow> repr)"
| "to_sexp U self (Date d) = format_date d"
| "to_sexp U self (DateTime dt) = format_date (date_of dt)"
| "to_sexp U self Null = lit ''nil''"
| "to_sexp U self (Iterable xs) = to_sexp U self (Sequence xs)"
| "to_sexp U self (Opaque s) = [0x22] @ escape_string s @ [0x22]"
  by pat_completeness auto

termination to_sexp
proof (relation
    "measure (\<lambda>(U, self, data). 2 * size data + (case data of Iterable xs \<Rightarrow> 1 | _ \<Rightarrow> 0))",
    goal_cases)
  case 1
  show ?case by simp
next
  case (2 U self kvs parts x key v)
  have "(key, v) \<in> set kvs \<longrightarrow> size v < Suc (size_list (size_prod (\<lambda>_. 0) size) kvs)"
    by (induction kvs) auto
  with 2 have "size v < Suc (size_list (size_prod (\<lambda>_. 0) size) kvs)" by simp
  moreover have "(case v of Iterable xs \<Rightarrow> 1 | _ \<Rightarrow> 0) \<le> (1::nat)"
    by (simp split: pyvalue.split)
  ultimately show ?case by simp
next
  case (3 U self xs item_parts x)
  have "x \<in> set xs \<longrightarrow> size x < Suc (size_list size xs)"
    by (induction xs) auto
  with 3 have "size x < Suc (size_list size xs)" by simp
  moreover have "(case x of Iterable xs \<Rightarrow> 1 | _ \<Rightarrow> 0) \<le> (1::nat)"
    by (simp split: pyvalue.split)
  ultimately show ?case by simp
next
  case (4 U self xs x)
  have "x \<in> set xs \<longrightarrow> size x < Suc (size_list size xs)"
    by (induction xs) auto
  with 4 have "size x < Suc (size_list size xs)" by simp
  moreover have "(case x of Iterable xs \<Rightarrow> 1 | _ \<Rightarrow> 0) \<le> (1::nat)"
    by (simp split: pyvalue.split)
  ultimately show ?case by simp
next
  case (5 U self xs)
  show ?case by simp
qed

section \<open>Exceptions and the call stack\<close>

text \<open>
  The exceptions the program can raise: \<open>RecursionError\<close>, by the interpreter when the
  call stack is exhausted, and \<open>ValueError\<close>, by \<open>validate_yaml_structure\<close>.
\<close>

datatype error = RecursionError | ValueError

definition and_then :: "error + 'a \<Rightarrow> ('a \<Rightarrow> error + 'b) \<Rightarrow> error + 'b" where
  "and_then r f = (case r of Inl e \<Rightarrow> Inl e | Inr x \<Rightarrow> f x)"

text \<open>
  \<open>for x in xs: parts.append(f(x))\<close>, where \<open>f\<close> may raise: the loop stops at the
  first exception.
\<close>

fun for_append :: "('a \<Rightarrow> error + 'b) \<Rightarrow> 'b list \<Rightarrow> 'a list \<Rightarrow> error + 'b list" where
  "for_append f parts [] = Inr parts"
| "for_append f parts (x # xs) = and_then (f x) (\<lambda>y. for_append f (parts @ [y]) xs)"

text \<open>
  The interpreter bounds the number of nested frames of Python code and raises
  \<open>RecursionError\<close> when a frame is entered with no room left. A call of a function
  of the source takes a frame, and so do the generator expression in
  \<open>is_list_of_records\<close> and the list comprehension in \<open>to_sexp\<close>; built-in
  functions are not charged. \<open>enter n body\<close> enters a frame when there is room for
  \<open>n\<close> frames, and runs its body with the room that is left.
\<close>

definition enter :: "nat \<Rightarrow> (nat \<Rightarrow> error + 'a) \<Rightarrow> error + 'a" where
  "enter n body = (case n of 0 \<Rightarrow> Inl RecursionError | Suc m \<Rightarrow> body m)"

text \<open>
  The helpers, run with room for \<open>n\<close> frames: \<open>is_list_of_records\<close> (its generator
  expression is entered when \<open>all\<close> asks for the first item), \<open>is_symbol\<close>,
  \<open>escape_string\<close> (\<open>sub\<close> calls \<open>escape_char\<close> once for each match) and
  \<open>format_date\<close>.
\<close>

definition is_list_of_records_rec :: "nat \<Rightarrow> pyvalue list \<Rightarrow> error + bool" where
  "is_list_of_records_rec n data =
     enter n (\<lambda>m.
       if data = [] then Inr False
       else enter m (\<lambda>_. Inr (list_all isinstance_dict data)))"

definition is_symbol_rec :: "nat \<Rightarrow> unicode \<Rightarrow> pystr \<Rightarrow> error + bool" where
  "is_symbol_rec n U s = enter n (\<lambda>_. Inr (is_symbol U s))"

definition escape_string_rec :: "nat \<Rightarrow> pystr \<Rightarrow> error + pystr" where
  "escape_string_rec n s =
     enter n (\<lambda>m.
       if list_ex escape_pattern s then enter m (\<lambda>_. Inr (escape_string s))
       else Inr (escape_string s))"

definition format_date_rec :: "nat \<Rightarrow> date \<Rightarrow> error + pystr" where
  "format_date_rec n date_obj = enter n (\<lambda>_. Inr (format_date date_obj))"

text \<open>
  \<open>to_sexp\<close> run with room for \<open>n\<close> frames. An exception raised in a loop, in the
  comprehension or in a helper propagates to the caller.
\<close>

fun to_sexp_rec :: "nat \<Rightarrow> unicode \<Rightarrow> converter \<Rightarrow> pyvalue \<Rightarrow> error + pystr" where
  "to_sexp_rec 0 U self data = Inl RecursionError"
| "to_sexp_rec (Suc n) U self (Mapping kvs) =
     (if kvs = [] then Inr (lit ''()'')
      else and_then
        (for_append (\<lambda>(key, v).
            and_then (to_sexp_rec n U self v) (\<lambda>converted_value.
              Inr (lit ''('' @ (key_prefix self @ lit '':'' @ key) @ lit '' ''
                   @ converted_value @ lit '')'')))
          [] kvs)
        (\<lambda>parts. Inr (join (lit '' '') parts)))"
| "to_sexp_rec (Suc n) U self (Sequence xs) =
     (if xs = [] then Inr (lit ''()'')
      else and_then (is_list_of_records_rec n xs) (\<lambda>records.
        if records then
          and_then
            (for_append (\<lambda>record.
                and_then (to_sexp_rec n U self record) (\<lambda>record_sexp.
                  Inr (lit ''('' @ key_prefix self @ lit '':item '' @ record_sexp @ lit '')'')))
              [] xs)
            (\<lambda>item_parts. Inr (join (lit '' '') item_parts))
        else
          (case n of
             0 \<Rightarrow> Inl RecursionError
           | Suc m \<Rightarrow>
               and_then (for_append (to_sexp_rec m U self) [] xs)
                 (\<lambda>elements. Inr (lit ''('' @ join (lit '' '') elements @ lit '')'')))))"
| "to_sexp_rec (Suc n) U self (Text s) =
     and_then (is_symbol_rec n U s) (\<lambda>symbol.
       if symbol then Inr ([0x27] @ s)
       else and_then (escape_string_rec n s) (\<lambda>escaped. Inr ([0x22] @ escaped @ [0x22])))"
| "to_sexp_rec (Suc n) U self (Date d) = format_date_rec n d"
| "to_sexp_rec (Suc n) U self (DateTime dt) = format_date_rec n (date_of dt)"
| "to_sexp_rec (Suc n) U self (Iterable xs) = to_sexp_rec n U self (Sequence xs)"
| "to_sexp_rec (Suc n) U self (Opaque s) =
     and_then (escape_string_rec n s) (\<lambda>escaped. Inr ([0x22] @ escaped @ [0x22]))"
| "to_sexp_rec (Suc n) U self data = Inr (to_sexp U self data)"




section \<open>The program\<close>



section \<open>Notions of the specification\<close>

text \<open>A tree that contains no Mapping at any depth.\<close>

fun mapping_free :: "pyvalue \<Rightarrow> bool" where
  "mapping_free (Mapping kvs) = False"
| "mapping_free (Sequence xs) = list_all mapping_free xs"
| "mapping_free (Iterable xs) = list_all mapping_free xs"
| "mapping_free data = True"



section \<open>Escaping\<close>

lemma hex_small: "n < 16 \<Longrightarrow> hex n = [hex_digit n]"
  by (simp add: hex.simps)

lemma hex_two:
  "16 \<le> n \<Longrightarrow> n < 256 \<Longrightarrow> hex n = [hex_digit (n div 16), hex_digit (n mod 16)]"
  by (subst hex.simps) (simp add: hex_small less_mult_imp_div_less)

lemma format_02x_byte:
  "n < 256 \<Longrightarrow> format_02x n = [hex_digit (n div 16), hex_digit (n mod 16)]"
  by (cases "n < 16") (simp_all add: format_02x_def hex_small hex_two hex_digit_def)

text \<open>The digits that \<open>02x\<close> produces are the sixteen characters \<open>0123456789abcdef\<close>.\<close>

lemma hex_digit_lower_hex: "d < 16 \<Longrightarrow> hex_digit d = lower_hex ! d"
proof -
  have "list_all (\<lambda>d. hex_digit d = lower_hex ! d) [0..<16]"
    by code_simp
  then show "d < 16 \<Longrightarrow> hex_digit d = lower_hex ! d"
    by (simp add: list_all_iff)
qed

lemma escape_one: "(if escape_pattern c then escape_char c else [c]) = escaped_char c"
proof (cases "is_control c")
  case True
  then have "c < 256" and "c div 16 < 16" and "c mod 16 < 16"
    by (auto simp: is_control_def)
  then have "format_02x c = [lower_hex ! (c div 16), lower_hex ! (c mod 16)]"
    by (simp add: format_02x_byte hex_digit_lower_hex)
  with True show ?thesis
    by (auto simp: escape_pattern_def escape_char_def escaped_char_def is_control_def)
next
  case False
  then show ?thesis
    by (auto simp: escape_pattern_def escape_char_def escaped_char_def is_control_def)
qed

lemma escape_string_map: "escape_string s = concat (map escaped_char s)"
  by (simp add: escape_string_def escape_one)

lemma escaped_char_plain:
  "c \<noteq> 0x22 \<Longrightarrow> c \<noteq> 0x5C \<Longrightarrow> \<not> is_control c \<Longrightarrow> escaped_char c = [c]"
  by (auto simp: escaped_char_def is_control_def)

text \<open>
  C5. On the quoted path every character is escaped on its own: the double quote, the
  backslash, newline, carriage return and tab by their two-character escapes, any other
  control character (0x00-0x1F, 0x7F) by \<open>\x\<close> and its two lowercase hexadecimal digits,
  and every other character, all non-ASCII characters among them, is copied unchanged.
\<close>

theorem escape_string_spec:
  "escape_string s = concat (map escaped_char s) \<and>
   (0x80 \<le> c \<longrightarrow> escape_string [c] = [c])"
proof
  show "escape_string s = concat (map escaped_char s)"
    by (rule escape_string_map)
  show "0x80 \<le> c \<longrightarrow> escape_string [c] = [c]"
    by (simp add: escape_string_map escaped_char_plain is_control_def)
qed

theorem escape_string_spec_witness:
  "escape_string [0x61, 0x22, 0x5C, 0x0A, 0x0D, 0x09, 0x00, 0x0B, 0x0C, 0x1A, 0x1D, 0x1E, 0x1F,
                  0x7F, 0xE9, 0x4E2D] =
     lit ''a'' @ [0x5C, 0x22] @ [0x5C, 0x5C] @ [0x5C] @ lit ''n'' @ [0x5C] @ lit ''r''
       @ [0x5C] @ lit ''t'' @ [0x5C] @ lit ''x00'' @ [0x5C] @ lit ''x0b'' @ [0x5C] @ lit ''x0c''
       @ [0x5C] @ lit ''x1a'' @ [0x5C] @ lit ''x1d'' @ [0x5C] @ lit ''x1e'' @ [0x5C] @ lit ''x1f''
       @ [0x5C] @ lit ''x7f'' @ [0xE9, 0x4E2D]
   \<and> (0x80::nat) \<le> 0x4E2D \<and> escape_string [0x4E2D] = [0x4E2D]"
  using escape_string_spec
    [of "[0x61, 0x22, 0x5C, 0x0A, 0x0D, 0x09, 0x00, 0x0B, 0x0C, 0x1A, 0x1D, 0x1E, 0x1F,
          0x7F, 0xE9, 0x4E2D]" "0x4E2D"]
  by (simp add: escaped_char_def is_control_def lower_hex_def lit_def)

section \<open>Symbol classification\<close>

text \<open>Where \<open>$\<close> can match: at the end, and before a final newline.\<close>

lemma re_dollar_drop:
  "re_dollar (drop n xs) \<longleftrightarrow> length xs \<le> n \<or> (length xs = Suc n \<and> last xs = 0x0A)"
proof (cases "length xs \<le> n")
  case True
  then show ?thesis by (simp add: re_dollar_def)
next
  case False
  then have n: "n < length xs" by simp
  have "drop n xs = [0x0A] \<longleftrightarrow> length xs = Suc n \<and> last xs = 0x0A"
  proof
    assume d: "drop n xs = [0x0A]"
    then have "length (drop n xs) = 1" by simp
    then have l: "length xs = Suc n" using n by simp
    have "last (drop n xs) = last xs" using n by (rule last_drop)
    with d l show "length xs = Suc n \<and> last xs = 0x0A" by simp
  next
    assume a: "length xs = Suc n \<and> last xs = 0x0A"
    then have "length (drop n xs) = 1" by simp
    then obtain y where y: "drop n xs = [y]"
      by (cases "drop n xs") auto
    have "last (drop n xs) = last xs" using n by (rule last_drop)
    with y a show "drop n xs = [0x0A]" by simp
  qed
  with False show ?thesis by (simp add: re_dollar_def)
qed

lemma re_dollar_whole:
  assumes "no_final_newline s"
  shows "re_dollar (drop n s) \<longleftrightarrow> length s \<le> n"
  using assms by (auto simp: re_dollar_drop no_final_newline_def)

lemma re_dollar_tail:
  assumes "no_final_newline (c # cs)"
  shows "re_dollar (drop n cs) \<longleftrightarrow> length cs \<le> n"
proof -
  have "\<not> (length cs = Suc n \<and> last cs = 0x0A)"
  proof
    assume a: "length cs = Suc n \<and> last cs = 0x0A"
    then have "cs \<noteq> []" by auto
    with a have "last (c # cs) = 0x0A" by simp
    with assms show False by (simp add: no_final_newline_def)
  qed
  then show ?thesis by (auto simp: re_dollar_drop)
qed

lemma repeat_to_end:
  "(n \<le> length xs \<and> list_all P (take n xs) \<and> length xs \<le> n) = (length xs = n \<and> list_all P xs)"
  by (cases "length xs = n") auto

lemma pattern1_shape:
  assumes "no_final_newline s"
  shows "pattern1 U s \<longleftrightarrow>
    (case s of [] \<Rightarrow> False
     | c # cs \<Rightarrow> ascii_upper c \<and> 4 \<le> length cs \<and> length cs \<le> 6 \<and> list_all (re_d U) cs)"
proof (cases s)
  case Nil
  then show ?thesis by (simp add: pattern1_def)
next
  case (Cons c cs)
  have d: "\<And>n. re_dollar (drop n cs) \<longleftrightarrow> length cs \<le> n"
    using assms unfolding Cons by (rule re_dollar_tail)
  have "(length cs = 4 \<or> length cs = 5 \<or> length cs = 6) = (4 \<le> length cs \<and> length cs \<le> 6)"
    by arith
  then have "pattern1 U (c # cs) \<longleftrightarrow>
      ascii_upper c \<and> 4 \<le> length cs \<and> length cs \<le> 6 \<and> list_all (re_d U) cs"
    by (simp add: pattern1_def d repeat_to_end) blast
  then show ?thesis unfolding Cons by simp
qed

lemma pattern2_shape:
  assumes "no_final_newline s"
  shows "pattern2 s \<longleftrightarrow> 2 \<le> length s \<and> length s \<le> 3 \<and> list_all ascii_upper s"
proof -
  have d: "\<And>n. re_dollar (drop n s) \<longleftrightarrow> length s \<le> n"
    using assms by (rule re_dollar_whole)
  have "(length s = 2 \<or> length s = 3) = (2 \<le> length s \<and> length s \<le> 3)"
    by arith
  then show ?thesis
    by (simp add: pattern2_def d repeat_to_end) blast
qed

lemma pattern3_shape:
  assumes "no_final_newline s"
  shows "pattern3 U s \<longleftrightarrow>
    (case s of [] \<Rightarrow> False | c # cs \<Rightarrow> (ascii_letter c \<or> c = 0x5F) \<and> list_all (re_w U) cs)"
proof (cases s)
  case Nil
  then show ?thesis by (simp add: pattern3_def)
next
  case (Cons c cs)
  have d: "\<And>n. re_dollar (drop n cs) \<longleftrightarrow> length cs \<le> n"
    using assms unfolding Cons by (rule re_dollar_tail)
  have "list_ex (\<lambda>n. list_all (re_w U) (take n cs) \<and> length cs \<le> n) [0..<Suc (length cs)]
      \<longleftrightarrow> list_all (re_w U) cs"
    by (auto simp: list_ex_iff less_Suc_eq_le)
  then show ?thesis unfolding Cons by (simp add: pattern3_def d del: upt_Suc)
qed

lemma symbol_regex_shapes:
  "no_final_newline s \<Longrightarrow> symbol_regex U s \<longleftrightarrow> unicode_shapes U s"
  by (simp add: symbol_regex_def unicode_shapes_def pattern1_shape pattern2_shape
      pattern3_shape)

lemma is_symbol_unicode_shapes:
  "no_final_newline s \<Longrightarrow>
   is_symbol U s \<longleftrightarrow> 1 \<le> length s \<and> length s \<le> 20 \<and> unicode_shapes U s"
  by (cases s) (auto simp: is_symbol_def symbol_regex_shapes)

text \<open>On ASCII strings the classes of the patterns are the ASCII classes.\<close>

lemma list_all_ascii_classes:
  assumes "list_all (\<lambda>c. c < 0x80) cs"
  shows "list_all (re_d U) cs = list_all ascii_digit cs"
    and "list_all (re_w U) cs = list_all ascii_word cs"
  using assms by (induction cs) (simp_all add: re_d_def re_w_def ascii_word_def)

lemma unicode_shapes_ascii:
  "list_all (\<lambda>c. c < 0x80) s \<Longrightarrow> unicode_shapes U s = ascii_shapes s"
  by (cases s) (simp_all add: unicode_shapes_def ascii_shapes_def list_all_ascii_classes)

lemma upper_is_word: "ascii_upper c \<Longrightarrow> re_w U c"
  by (simp add: re_w_def ascii_upper_def ascii_letter_def)

lemma first_is_word: "ascii_letter c \<or> c = 0x5F \<Longrightarrow> re_w U c"
  by (auto simp: re_w_def ascii_upper_def ascii_lower_def ascii_letter_def)

lemma unicode_shapes_chars:
  "unicode_shapes U s \<Longrightarrow> list_all (\<lambda>c. re_w U c \<or> re_d U c) s"
  by (cases s) (auto simp: unicode_shapes_def list_all_iff upper_is_word first_is_word)

text \<open>No character of either class is one that \<open>escape_pattern\<close> matches.\<close>

lemma class_not_escaped: "re_w U c \<or> re_d U c \<Longrightarrow> \<not> escape_pattern c"
  by (auto simp: re_w_def re_d_def escape_pattern_def ascii_letter_def ascii_upper_def
      ascii_lower_def ascii_digit_def split: if_splits)

lemma symbol_needs_no_escape:
  assumes "no_final_newline s" and "is_symbol U s"
  shows "list_all (\<lambda>c. \<not> escape_pattern c) s"
proof -
  from assms have "unicode_shapes U s" by (simp add: is_symbol_unicode_shapes)
  then have "list_all (\<lambda>c. re_w U c \<or> re_d U c) s" by (rule unicode_shapes_chars)
  then show ?thesis using class_not_escaped [of U] by (auto simp: list_all_iff)
qed

text \<open>
  C1, as amended. The claim gives the three shapes with ASCII classes; the patterns use
  \<open>\d\<close> and \<open>\w\<close>, which are Unicode classes. For every string that does not end in
  a newline, \<open>is_symbol\<close> holds iff the length is between 1 and 20 and the string has one
  of the shapes: an uppercase ASCII letter and 4 to 6 decimal digits of any script; 2 or
  3 uppercase ASCII letters; an ASCII letter or underscore and then any number of
  alphanumeric characters of any script or underscores. On ASCII strings this is the
  claim's condition, and no such string with a character outside the two classes is a
  symbol.
\<close>

theorem is_symbol_shapes:
  assumes "no_final_newline s"
  shows "(is_symbol U s \<longleftrightarrow> 1 \<le> length s \<and> length s \<le> 20 \<and> unicode_shapes U s)
       \<and> (list_all (\<lambda>c. c < 0x80) s \<longrightarrow> is_symbol U s = claimed_is_symbol s)
       \<and> (is_symbol U s \<longrightarrow> list_all (\<lambda>c. re_w U c \<or> re_d U c) s)"
  using assms
  by (simp add: is_symbol_unicode_shapes claimed_is_symbol_def unicode_shapes_ascii
      unicode_shapes_chars)

theorem is_symbol_shapes_witness:
  "no_final_newline (lit ''A1234'') \<and> is_symbol latin_e_acute (lit ''A1234'')
   \<and> claimed_is_symbol (lit ''A1234'')"
proof -
  have h: "no_final_newline (lit ''A1234'')"
    by (simp add: no_final_newline_def lit_def)
  have u: "unicode_shapes latin_e_acute (lit ''A1234'')"
    by (simp add: unicode_shapes_def lit_def ascii_upper_def re_d_def ascii_digit_def)
  from is_symbol_shapes [OF h, of latin_e_acute] u h show ?thesis
    by (auto simp: lit_def)
qed

text \<open>
  The claim as stated fails at the two-character string \<open>a\<close>, U+00E9: the third pattern
  matches it, \<open>\w\<close> accepting the accented letter, and it is not made of ASCII letters,
  digits and underscores.
\<close>

theorem is_symbol_counterexample:
  "is_symbol latin_e_acute [0x61, 0xE9] \<and> \<not> claimed_is_symbol [0x61, 0xE9]"
  by (simp add: is_symbol_def symbol_regex_def pattern1_def pattern2_def pattern3_def
      claimed_is_symbol_def ascii_shapes_def ascii_word_def
      re_w_def re_d_def re_dollar_def latin_e_acute_def
      ascii_upper_def ascii_lower_def ascii_letter_def ascii_digit_def upt_rec)

text \<open>
  C2. A Text is emitted either as a quote and the text verbatim (when \<open>is_symbol\<close>) or
  as a double-quoted escaped literal, and the claim adds that a symbol contains no
  character that needs escaping. That holds for every symbol that does not end in a
  newline (\<open>symbol_needs_no_escape\<close>), and fails for the string \<open>a\<close>, newline: \<open>$\<close>
  matches before the final newline, so the string is emitted on the symbol path with its
  control character unescaped.
\<close>

theorem to_sexp_symbol_with_newline:
  "is_symbol latin_e_acute [0x61, 0x0A]
   \<and> to_sexp latin_e_acute (YAMLToSExpConverter (lit ''yaml'')) (Text [0x61, 0x0A])
       = [0x27, 0x61, 0x0A]
   \<and> is_control 0x0A
   \<and> escape_string [0x61, 0x0A] = [0x61, 0x5C, 0x6E]"
proof -
  have s: "is_symbol latin_e_acute [0x61, 0x0A]"
    by (simp add: is_symbol_def symbol_regex_def pattern1_def pattern2_def pattern3_def
        re_w_def re_d_def re_dollar_def
        ascii_upper_def ascii_lower_def ascii_letter_def ascii_digit_def upt_rec)
  have e: "escape_string [0x61, 0x0A] = [0x61, 0x5C, 0x6E]"
    by (simp add: escape_string_def escape_pattern_def escape_char_def)
  from s e show ?thesis by (simp add: is_control_def)
qed

section \<open>Mappings and sequences\<close>

text \<open>A loop that appends one fragment per item builds the list of the fragments.\<close>

lemma foldl_append_map: "foldl (\<lambda>parts x. parts @ [f x]) acc xs = acc @ map f xs"
  by (induction xs arbitrary: acc) simp_all


lemma to_sexp_Sequence:
  "to_sexp U self (Sequence xs) =
     (if xs = [] then lit ''()''
      else if is_list_of_records xs then
        join (lit '' '')
          (map (\<lambda>record. lit ''('' @ key_prefix self @ lit '':item '' @ to_sexp U self record
                  @ lit '')'') xs)
      else lit ''('' @ join (lit '' '') (map (to_sexp U self) xs) @ lit '')'')"
  by (simp add: foldl_append_map)





text \<open>C9. The empty Mapping and the empty Sequence are emitted as \<open>()\<close>.\<close>

theorem to_sexp_empty:
  "to_sexp U self (Mapping []) = lit ''()'' \<and> to_sexp U self (Sequence []) = lit ''()''"
  by simp

text \<open>
  C10. On a tree that contains no Mapping at any depth the output is the same for every
  key prefix.
\<close>

lemma mapping_free_no_records:
  "xs \<noteq> [] \<Longrightarrow> list_all mapping_free xs \<Longrightarrow> \<not> is_list_of_records xs"
  by (cases xs; cases "hd xs") (auto simp: is_list_of_records_def)

theorem to_sexp_prefix_independent:
  "mapping_free data \<Longrightarrow>
   to_sexp U (YAMLToSExpConverter p) data = to_sexp U (YAMLToSExpConverter q) data"
proof (induction data)
  case (Sequence xs)
  then have m: "list_all mapping_free xs" by simp
  with Sequence.IH have eq:
    "map (to_sexp U (YAMLToSExpConverter p)) xs = map (to_sexp U (YAMLToSExpConverter q)) xs"
    by (simp add: list_all_iff)
  from m show ?case
    by (simp add: to_sexp_Sequence mapping_free_no_records eq del: to_sexp.simps)
next
  case (Iterable xs)
  then have m: "list_all mapping_free xs" by simp
  with Iterable.IH have eq:
    "map (to_sexp U (YAMLToSExpConverter p)) xs = map (to_sexp U (YAMLToSExpConverter q)) xs"
    by (simp add: list_all_iff)
  from m show ?case
    by (simp add: to_sexp_Sequence mapping_free_no_records eq del: to_sexp.simps(2))
qed simp_all

theorem to_sexp_prefix_independent_witness:
  "mapping_free (Sequence [Integer 1, Sequence [Text (lit ''a b''), Null], Bool True])
   \<and> to_sexp latin_e_acute (YAMLToSExpConverter (lit ''yaml''))
        (Sequence [Integer 1, Sequence [Text (lit ''a b''), Null], Bool True])
    = to_sexp latin_e_acute (YAMLToSExpConverter (lit ''cfg''))
        (Sequence [Integer 1, Sequence [Text (lit ''a b''), Null], Bool True])"
proof -
  have m: "mapping_free (Sequence [Integer 1, Sequence [Text (lit ''a b''), Null], Bool True])"
    by simp
  from m to_sexp_prefix_independent [OF m, of latin_e_acute "lit ''yaml''" "lit ''cfg''"]
  show ?thesis by (simp only: simp_thms)
qed

section \<open>Dates and numbers\<close>








text \<open>
  The special values of a Float; a finite one is emitted as the text \<open>str\<close> gives for
  it.
\<close>

lemma to_sexp_Float_special:
  "to_sexp U self (Float NaN) = lit ''+nan.0''
   \<and> to_sexp U self (Float PosInf) = lit ''+inf.0''
   \<and> to_sexp U self (Float NegInf) = lit ''-inf.0''
   \<and> to_sexp U self (Float (Finite repr)) = repr"
  by simp

section \<open>Termination and the call stack\<close>




























text \<open>
  The room a small tree needs: the list of a one-pair mapping and \<open>None\<close> raises with
  room for five frames and returns with six; a text that is not a symbol and has nothing
  to escape needs two.
\<close>

lemma to_sexp_rec_small_trees:
  "to_sexp_rec 5 latin_e_acute (YAMLToSExpConverter (lit ''yaml''))
     (Sequence [Mapping [(lit ''k'', Sequence [Integer 1])], Null]) = Inl RecursionError
   \<and> to_sexp_rec 6 latin_e_acute (YAMLToSExpConverter (lit ''yaml''))
     (Sequence [Mapping [(lit ''k'', Sequence [Integer 1])], Null])
       = Inr (lit ''((yaml:k (1)) nil)'')
   \<and> to_sexp_rec 1 latin_e_acute (YAMLToSExpConverter (lit ''yaml'')) (Text (lit ''a b''))
       = Inl RecursionError
   \<and> to_sexp_rec 2 latin_e_acute (YAMLToSExpConverter (lit ''yaml'')) (Text (lit ''a b''))
       = Inr ([0x22] @ lit ''a b'' @ [0x22])"
  by code_simp

end
